theory Spec2Isabelle
  imports Main "HOL-Library.AList" "HOL-Library.Word"
begin

section \<open>Values, documents and the two external stores\<close>

text \<open>
  The server in \<^verbatim>\<open>src/index.js\<close> is a set of Express route handlers over five Mongoose
  models; images are kept at Cloudinary. The handlers are embedded as functions on an
  explicit state: the content of the five collections, the set of assets alive at the image
  host, the sequence of calls issued to the two stores (in the order the handler awaits
  them) and the lines written with \<^verbatim>\<open>console.error\<close>.

  A JavaScript value that may be \<^verbatim>\<open>undefined\<close> is a \<open>json option\<close>, \<open>None\<close> being
  \<^verbatim>\<open>undefined\<close>. An object is a map from property names to values; a property whose value
  is \<^verbatim>\<open>undefined\<close> is an absent key, which is how \<^verbatim>\<open>res.json\<close> serialises it and how an
  update treats it. The number payload is an integer: no handler computes with numbers.
  A stored document is its identifier together with the values of the paths its schema
  declares; the version key Mongoose keeps beside them is left out.
\<close>

datatype json =
    JNull
  | JBool bool
  | JNum int
  | JStr string
  | JArr "json list"
  | JObj "(string \<times> json) list"

type_synonym obj = "string \<rightharpoonup> json"
type_synonym oid = string
type_synonym buffer = "8 word list"

text \<open>The truth value JavaScript gives a value in \<^verbatim>\<open>if (v)\<close>.\<close>

fun truthy :: "json option \<Rightarrow> bool" where
  "truthy None = False"
| "truthy (Some JNull) = False"
| "truthy (Some (JBool b)) = b"
| "truthy (Some (JNum n)) = (n \<noteq> 0)"
| "truthy (Some (JStr s)) = (s \<noteq> [])"
| "truthy (Some (JArr xs)) = True"
| "truthy (Some (JObj kvs)) = True"

text \<open>The five models of lines 113 to 118, and what the routes of each kind are built from.\<close>

datatype kind = Category | Offer | Product | RestaurantAdmin | Restaurant

record image_spec =
  url_field :: string
  id_field :: string
  folder :: string

text \<open>
  The schemas of lines 67 to 111 give Category and Product the pair \<^verbatim>\<open>image\<close>,
  \<^verbatim>\<open>imagePublicId\<close> and Restaurant the pair \<^verbatim>\<open>logo\<close>, \<^verbatim>\<open>logoPublicId\<close>; the folder
  is the second argument the routes of that kind pass to \<^verbatim>\<open>uploadToCloudinary\<close>.
\<close>

fun image_of :: "kind \<Rightarrow> image_spec option" where
  "image_of Category =
     Some \<lparr>url_field = ''image'', id_field = ''imagePublicId'', folder = ''categories''\<rparr>"
| "image_of Product =
     Some \<lparr>url_field = ''image'', id_field = ''imagePublicId'', folder = ''products''\<rparr>"
| "image_of Restaurant =
     Some \<lparr>url_field = ''logo'', id_field = ''logoPublicId'', folder = ''restaurants''\<rparr>"
| "image_of Offer = None"
| "image_of RestaurantAdmin = None"

fun not_found :: "kind \<Rightarrow> string" where
  "not_found Category = ''Category not found''"
| "not_found Offer = ''Offer not found''"
| "not_found Product = ''Product not found''"
| "not_found RestaurantAdmin = ''Admin not found''"
| "not_found Restaurant = ''Restaurant not found''"

fun deleted :: "kind \<Rightarrow> string" where
  "deleted Category = ''Category deleted''"
| "deleted Offer = ''Offer deleted''"
| "deleted Product = ''Product deleted''"
| "deleted RestaurantAdmin = ''Admin deleted''"
| "deleted Restaurant = ''Restaurant deleted''"

text \<open>
  The schemas of lines 67 to 111: the paths each model declares and their types. None
  sets an option, a default or a validator.
\<close>

datatype ftype = TString | TNumber | TBoolean | TDate | TStrings

fun schema :: "kind \<Rightarrow> (string \<times> ftype) list" where
  "schema Category =
     [(''restaurantId'', TString), (''order'', TNumber), (''name'', TString),
      (''image'', TString), (''imagePublicId'', TString)]"
| "schema Offer =
     [(''restaurantId'', TString), (''title'', TString), (''description'', TString),
      (''discount'', TNumber), (''tags'', TStrings), (''validUntil'', TDate),
      (''active'', TBoolean)]"
| "schema Product =
     [(''restaurantId'', TString), (''name'', TString), (''description'', TString),
      (''price'', TNumber), (''image'', TString), (''imagePublicId'', TString),
      (''categoryId'', TString), (''available'', TBoolean)]"
| "schema RestaurantAdmin =
     [(''restaurantId'', TString), (''createdAt'', TDate), (''username'', TString),
      (''password'', TString), (''restaurantName'', TString)]"
| "schema Restaurant =
     [(''adminId'', TString), (''name'', TString), (''address'', TString),
      (''contact'', TString), (''logo'', TString), (''logoPublicId'', TString)]"

text \<open>
  Every call a handler issues to the Document Store or to the Asset Store, with the
  arguments the handler passes: the identifier as it stands in the URL, the fields as the
  handler assembled them.
\<close>

datatype event =
    FindById kind string
  | Find kind
  | Save kind oid obj
  | FindByIdAndUpdate kind string obj
  | FindByIdAndDelete kind string
  | Upload string buffer
  | Destroy "json option"

record state =
  docs :: "kind \<Rightarrow> (oid \<times> obj) list"
  assets :: "string set"
  trace :: "event list"
  console :: "string list"

text \<open>
  What the outside world answers during one request. Neither store is code of this server,
  so the outcome of each call is an input: the error a query or a write of the Document
  Store throws for a reason of its own, if any; the error \<^verbatim>\<open>cloudinary.uploader.destroy\<close>
  rejects with, if any; the error or the result the upload callback receives; and the
  identifier Mongoose generates for a new document. Three more inputs stand for what
  Mongoose does where this development does not spell it out: what a value that is not of
  the declared type of its path is converted to, if it is accepted at all (\<open>coerce\<close>); the
  ObjectId that a string of twelve bytes is read as, by the drivers that accept one
  (\<open>twelve\<close>); and the message of the error raised when an identifier or a body is rejected
  (\<open>rejection\<close>).
\<close>

record upload_result =
  secure_url :: string
  public_id :: string

record env =
  find_err :: "string option"
  write_err :: "string option"
  destroy_err :: "string option"
  upload_reply :: "string + upload_result"
  new_id :: oid
  coerce :: "ftype \<Rightarrow> json \<Rightarrow> json option"
  twelve :: "string \<Rightarrow> oid option"
  rejection :: string

record request =
  params_id :: string
  req_body :: obj
  req_file :: "buffer option"

datatype payload =
    Document "(oid \<times> obj) option"
  | Documents "(oid \<times> obj) list"
  | Error string
  | Message string

record response =
  status :: nat
  json :: payload

section \<open>Awaited calls\<close>

text \<open>
  An awaited call either throws an error, of which the handlers only read \<^verbatim>\<open>message\<close>
  (\<open>Inl\<close>), or yields a value (\<open>Inr\<close>), and may change the state either way.
\<close>

type_synonym 'a action = "state \<Rightarrow> (string + 'a) \<times> state"

definition ret :: "'a \<Rightarrow> 'a action" where
  "ret x s = (Inr x, s)"

definition await :: "'a action \<Rightarrow> ('a \<Rightarrow> 'b action) \<Rightarrow> 'b action" where
  "await m f s = (case m s of (Inl err, s') \<Rightarrow> (Inl err, s') | (Inr x, s') \<Rightarrow> f x s')"

definition issue :: "event \<Rightarrow> state \<Rightarrow> state" where
  "issue ev s = s\<lparr>trace := trace s @ [ev]\<rparr>"

text \<open>
  The \<^verbatim>\<open>try { ... } catch (error) { res.status(500).json({ error: error.message }) }\<close>
  that wraps every handler.
\<close>

definition try_catch :: "response action \<Rightarrow> state \<Rightarrow> response \<times> state" where
  "try_catch m s =
     (case m s of
        (Inl err, s') \<Rightarrow> (\<lparr>status = 500, json = Error err\<rparr>, s')
      | (Inr r, s') \<Rightarrow> (r, s'))"

subsection \<open>What Mongoose does to identifiers and bodies\<close>

text \<open>
  Every query by id casts the string of the URL to an ObjectId first and throws a
  \<^verbatim>\<open>CastError\<close> when that fails. Twenty-four hexadecimal digits are an ObjectId, in
  either case of the letters, the same one as their lower-case form; a string of any length
  other than twenty-four and twelve is none.
\<close>

definition hex_digit :: "char \<Rightarrow> char option" where
  "hex_digit c = map_of (zip ''0123456789abcdefABCDEF'' ''0123456789abcdefabcdef'') c"

definition castObjectId :: "env \<Rightarrow> string \<Rightarrow> oid option" where
  "castObjectId e i =
     (if length i = 24 then those (map hex_digit i)
      else if length i = 12 then twelve e i
      else None)"

text \<open>
  A value of the declared type of its path is stored as it is: a string under
  \<^verbatim>\<open>String\<close>, a number under \<^verbatim>\<open>Number\<close>, a boolean under \<^verbatim>\<open>Boolean\<close>, an array of
  strings under \<^verbatim>\<open>[String]\<close>, and \<^verbatim>\<open>null\<close> under any of the scalar types. Any other
  value is converted or rejected by Mongoose.
\<close>

fun is_string :: "json \<Rightarrow> bool" where
  "is_string (JStr s) = True"
| "is_string v = False"

fun of_type :: "ftype \<Rightarrow> json \<Rightarrow> bool" where
  "of_type TString v = (case v of JStr s \<Rightarrow> True | JNull \<Rightarrow> True | _ \<Rightarrow> False)"
| "of_type TNumber v = (case v of JNum n \<Rightarrow> True | JNull \<Rightarrow> True | _ \<Rightarrow> False)"
| "of_type TBoolean v = (case v of JBool b \<Rightarrow> True | JNull \<Rightarrow> True | _ \<Rightarrow> False)"
| "of_type TDate v = (case v of JNull \<Rightarrow> True | _ \<Rightarrow> False)"
| "of_type TStrings v = (case v of JArr xs \<Rightarrow> list_all is_string xs | _ \<Rightarrow> False)"

definition cast :: "env \<Rightarrow> ftype \<Rightarrow> json \<Rightarrow> json option" where
  "cast e t v = (if of_type t v then Some v else coerce e t v)"

text \<open>
  The models are strict, which is the default: a field the schema does not declare is
  dropped without an error, on a new document and in an update alike. A body is rejected
  when the value of one of its declared paths is.
\<close>

definition cast_fields :: "env \<Rightarrow> kind \<Rightarrow> obj \<Rightarrow> obj" where
  "cast_fields e k b f =
     (case map_of (schema k) f of
        None \<Rightarrow> None
      | Some t \<Rightarrow> (case b f of None \<Rightarrow> None | Some v \<Rightarrow> cast e t v))"

fun castable_at :: "env \<Rightarrow> obj \<Rightarrow> string \<times> ftype \<Rightarrow> bool" where
  "castable_at e b (f, t) = (case b f of None \<Rightarrow> True | Some v \<Rightarrow> cast e t v \<noteq> None)"

definition castable :: "env \<Rightarrow> kind \<Rightarrow> obj \<Rightarrow> bool" where
  "castable e k b = list_all (castable_at e b) (schema k)"

text \<open>A new document has the empty array under an array path its fields leave out.\<close>

definition new_document :: "env \<Rightarrow> kind \<Rightarrow> obj \<Rightarrow> obj" where
  "new_document e k b f =
     (case cast_fields e k b f of
        Some v \<Rightarrow> Some v
      | None \<Rightarrow> (if map_of (schema k) f = Some TStrings \<and> b f = None then Some (JArr []) else None))"

text \<open>
  Two things a body can carry are outside this development: the paths \<^verbatim>\<open>_id\<close> and
  \<^verbatim>\<open>__v\<close>, which Mongoose adds to every schema, and the update operators, whose names
  start with a dollar sign. The functions above drop them like any field the schemas of the
  source do not declare; the statements about the stored fields are made for bodies that
  carry none of them.
\<close>

definition ordinary :: "obj \<Rightarrow> bool" where
  "ordinary b = (\<forall>f. b f \<noteq> None \<longrightarrow> f \<noteq> ''_id'' \<and> f \<noteq> ''__v'' \<and> take 1 f \<noteq> ''$'')"

subsection \<open>The Document Store\<close>

text \<open>
  A collection is the list of its documents in insertion order, each under its identifier.
  \<^verbatim>\<open>new Model(fields)\<close> followed by \<^verbatim>\<open>save()\<close> is one call here: validation rejects the
  document when a value was rejected, the server rejects it when the identifier is already
  in the collection. \<^verbatim>\<open>findByIdAndUpdate\<close> with \<^verbatim>\<open>{ new: true }\<close> sets the cast fields
  over the stored ones and yields the document after the update, or \<^verbatim>\<open>null\<close> when there
  is none.
\<close>

definition findById :: "env \<Rightarrow> kind \<Rightarrow> string \<Rightarrow> ((oid \<times> obj) option) action" where
  "findById e k raw s =
     (let s1 = issue (FindById k raw) s in
      case castObjectId e raw of
        None \<Rightarrow> (Inl (rejection e), s1)
      | Some i \<Rightarrow>
          (case find_err e of
             Some err \<Rightarrow> (Inl err, s1)
           | None \<Rightarrow> (Inr (map_option (Pair i) (map_of (docs s1 k) i)), s1)))"

definition find_docs :: "env \<Rightarrow> kind \<Rightarrow> ((oid \<times> obj) list) action" where
  "find_docs e k s =
     (let s1 = issue (Find k) s in
      case find_err e of
        Some err \<Rightarrow> (Inl err, s1)
      | None \<Rightarrow> (Inr (docs s1 k), s1))"

definition save :: "env \<Rightarrow> kind \<Rightarrow> obj \<Rightarrow> (oid \<times> obj) action" where
  "save e k flds s =
     (let s1 = issue (Save k (new_id e) flds) s;
          d = new_document e k flds
      in if \<not> castable e k flds then (Inl (rejection e), s1)
         else
           (case write_err e of
              Some err \<Rightarrow> (Inl err, s1)
            | None \<Rightarrow>
                if new_id e \<in> fst ` set (docs s1 k) then (Inl (rejection e), s1)
                else
                  (Inr (new_id e, d),
                   s1\<lparr>docs := (docs s1)(k := docs s1 k @ [(new_id e, d)])\<rparr>)))"

definition findByIdAndUpdate ::
  "env \<Rightarrow> kind \<Rightarrow> string \<Rightarrow> obj \<Rightarrow> ((oid \<times> obj) option) action" where
  "findByIdAndUpdate e k raw upd s =
     (let s1 = issue (FindByIdAndUpdate k raw upd) s in
      case castObjectId e raw of
        None \<Rightarrow> (Inl (rejection e), s1)
      | Some i \<Rightarrow>
          if \<not> castable e k upd then (Inl (rejection e), s1)
          else
            (case write_err e of
               Some err \<Rightarrow> (Inl err, s1)
             | None \<Rightarrow>
                 (case map_of (docs s1 k) i of
                    None \<Rightarrow> (Inr None, s1)
                  | Some d \<Rightarrow>
                      (Inr (Some (i, d ++ cast_fields e k upd)),
                       s1\<lparr>docs := (docs s1)
                            (k := AList.update i (d ++ cast_fields e k upd) (docs s1 k))\<rparr>))))"

definition findByIdAndDelete :: "env \<Rightarrow> kind \<Rightarrow> string \<Rightarrow> ((oid \<times> obj) option) action" where
  "findByIdAndDelete e k raw s =
     (let s1 = issue (FindByIdAndDelete k raw) s in
      case castObjectId e raw of
        None \<Rightarrow> (Inl (rejection e), s1)
      | Some i \<Rightarrow>
          (case write_err e of
             Some err \<Rightarrow> (Inl err, s1)
           | None \<Rightarrow>
               (case map_of (docs s1 k) i of
                  None \<Rightarrow> (Inr None, s1)
                | Some d \<Rightarrow>
                    (Inr (Some (i, d)),
                     s1\<lparr>docs := (docs s1)(k := AList.delete i (docs s1 k))\<rparr>))))"

subsection \<open>The Asset Store helpers (lines 120 to 140)\<close>

record image_data =
  url :: "json option"
  publicId :: "json option"

text \<open>
  \<^verbatim>\<open>uploadToCloudinary\<close> rejects with the error of the callback or resolves with the URL
  and the public id of the result; a successful upload makes that asset alive.
\<close>

definition uploadToCloudinary :: "env \<Rightarrow> buffer \<Rightarrow> string \<Rightarrow> image_data action" where
  "uploadToCloudinary e buf fld s =
     (let s1 = issue (Upload (''menumaster/'' @ fld) buf) s in
      case upload_reply e of
        Inl err \<Rightarrow> (Inl err, s1)
      | Inr r \<Rightarrow>
          (Inr \<lparr>url = Some (JStr (secure_url r)), publicId = Some (JStr (public_id r))\<rparr>,
           s1\<lparr>assets := insert (public_id r) (assets s1)\<rparr>))"

fun asset_named :: "json option \<Rightarrow> string set" where
  "asset_named (Some (JStr p)) = {p}"
| "asset_named v = {}"

text \<open>
  \<^verbatim>\<open>deleteFromCloudinary\<close> catches the error of \<^verbatim>\<open>destroy\<close> and writes it to the
  console: it never throws. A successful destroy removes the asset.
\<close>

definition deleteFromCloudinary :: "env \<Rightarrow> json option \<Rightarrow> unit action" where
  "deleteFromCloudinary e pid s =
     (let s1 = issue (Destroy pid) s in
      case destroy_err e of
        Some err \<Rightarrow>
          (Inr (), s1\<lparr>console := console s1 @ [''Error deleting image from Cloudinary: '' @ err]\<rparr>)
      | None \<Rightarrow> (Inr (), s1\<lparr>assets := assets s1 - asset_named pid\<rparr>))"

section \<open>Route handlers\<close>

text \<open>
  The routes of Category, Product and Restaurant are the same text up to the model, the two
  field names and the folder, and so are those of Offer and RestaurantAdmin up to the
  model: each group is one function of the kind.
\<close>

subsection \<open>Kinds with an image (lines 143 to 214, 267 to 338, 391 to 462)\<close>

definition post_image :: "kind \<Rightarrow> image_spec \<Rightarrow> request \<Rightarrow> env \<Rightarrow> state \<Rightarrow> response \<times> state" where
  "post_image k sp req e =
     try_catch
       (await (case req_file req of
                 Some buf \<Rightarrow> uploadToCloudinary e buf (folder sp)
               | None \<Rightarrow> ret \<lparr>url = Some (JStr []), publicId = Some (JStr [])\<rparr>)
          (\<lambda>imageData.
        await (save e k ((req_body req)
                 (url_field sp := url imageData, id_field sp := publicId imageData)))
          (\<lambda>doc.
        ret \<lparr>status = 201, json = Document (Some doc)\<rparr>)))"

definition put_image :: "kind \<Rightarrow> image_spec \<Rightarrow> request \<Rightarrow> env \<Rightarrow> state \<Rightarrow> response \<times> state" where
  "put_image k sp req e =
     try_catch
       (await (findById e k (params_id req))
          (\<lambda>found.
        case found of
          None \<Rightarrow> ret \<lparr>status = 404, json = Error (not_found k)\<rparr>
        | Some (i, d) \<Rightarrow>
            await (case req_file req of
                     Some buf \<Rightarrow>
                       await (if truthy (d (id_field sp))
                              then deleteFromCloudinary e (d (id_field sp))
                              else ret ())
                         (\<lambda>_. uploadToCloudinary e buf (folder sp))
                   | None \<Rightarrow> ret \<lparr>url = d (url_field sp), publicId = d (id_field sp)\<rparr>)
              (\<lambda>imageData.
            await (findByIdAndUpdate e k (params_id req) ((req_body req)
                     (url_field sp := url imageData, id_field sp := publicId imageData)))
              (\<lambda>updated.
            ret \<lparr>status = 200, json = Document updated\<rparr>))))"

definition delete_image :: "kind \<Rightarrow> image_spec \<Rightarrow> request \<Rightarrow> env \<Rightarrow> state \<Rightarrow> response \<times> state" where
  "delete_image k sp req e =
     try_catch
       (await (findById e k (params_id req))
          (\<lambda>found.
        case found of
          None \<Rightarrow> ret \<lparr>status = 404, json = Error (not_found k)\<rparr>
        | Some (i, d) \<Rightarrow>
            await (if truthy (d (id_field sp))
                   then deleteFromCloudinary e (d (id_field sp))
                   else ret ())
              (\<lambda>_.
            await (findByIdAndDelete e k (params_id req))
              (\<lambda>_.
            ret \<lparr>status = 200, json = Message (deleted k)\<rparr>))))"

subsection \<open>Kinds without an image (lines 217 to 264, 341 to 388)\<close>

definition post_plain :: "kind \<Rightarrow> request \<Rightarrow> env \<Rightarrow> state \<Rightarrow> response \<times> state" where
  "post_plain k req e =
     try_catch
       (await (save e k (req_body req))
          (\<lambda>doc.
        ret \<lparr>status = 201, json = Document (Some doc)\<rparr>))"

definition put_plain :: "kind \<Rightarrow> request \<Rightarrow> env \<Rightarrow> state \<Rightarrow> response \<times> state" where
  "put_plain k req e =
     try_catch
       (await (findByIdAndUpdate e k (params_id req) (req_body req))
          (\<lambda>updated.
        case updated of
          None \<Rightarrow> ret \<lparr>status = 404, json = Error (not_found k)\<rparr>
        | Some doc \<Rightarrow> ret \<lparr>status = 200, json = Document (Some doc)\<rparr>))"

definition delete_plain :: "kind \<Rightarrow> request \<Rightarrow> env \<Rightarrow> state \<Rightarrow> response \<times> state" where
  "delete_plain k req e =
     try_catch
       (await (findByIdAndDelete e k (params_id req))
          (\<lambda>removed.
        case removed of
          None \<Rightarrow> ret \<lparr>status = 404, json = Error (not_found k)\<rparr>
        | Some doc \<Rightarrow> ret \<lparr>status = 200, json = Message (deleted k)\<rparr>))"

subsection \<open>Reading routes, the same for the five kinds\<close>

definition get_all :: "kind \<Rightarrow> request \<Rightarrow> env \<Rightarrow> state \<Rightarrow> response \<times> state" where
  "get_all k req e =
     try_catch
       (await (find_docs e k)
          (\<lambda>found.
        ret \<lparr>status = 200, json = Documents found\<rparr>))"

definition get_one :: "kind \<Rightarrow> request \<Rightarrow> env \<Rightarrow> state \<Rightarrow> response \<times> state" where
  "get_one k req e =
     try_catch
       (await (findById e k (params_id req))
          (\<lambda>found.
        case found of
          None \<Rightarrow> ret \<lparr>status = 404, json = Error (not_found k)\<rparr>
        | Some doc \<Rightarrow> ret \<lparr>status = 200, json = Document (Some doc)\<rparr>))"

subsection \<open>The routing table\<close>

datatype operation = Create | ListAll | GetById | UpdateById | DeleteById

definition handle :: "kind \<Rightarrow> operation \<Rightarrow> request \<Rightarrow> env \<Rightarrow> state \<Rightarrow> response \<times> state" where
  "handle k oper =
     (case oper of
        Create \<Rightarrow> (case image_of k of Some sp \<Rightarrow> post_image k sp | None \<Rightarrow> post_plain k)
      | ListAll \<Rightarrow> get_all k
      | GetById \<Rightarrow> get_one k
      | UpdateById \<Rightarrow> (case image_of k of Some sp \<Rightarrow> put_image k sp | None \<Rightarrow> put_plain k)
      | DeleteById \<Rightarrow> (case image_of k of Some sp \<Rightarrow> delete_image k sp | None \<Rightarrow> delete_plain k))"

text \<open>A session is a sequence of requests, each served to completion before the next.\<close>

type_synonym call = "kind \<times> operation \<times> request \<times> env"

fun serve :: "state \<Rightarrow> call list \<Rightarrow> state" where
  "serve s [] = s"
| "serve s ((k, oper, req, e) # cs) = serve (snd (handle k oper req e s)) cs"

definition start :: state where
  "start = \<lparr>docs = (\<lambda>k. []), assets = {}, trace = [], console = []\<rparr>"

section \<open>Properties the statements below are written with\<close>

text \<open>The calls that go to the Asset Store.\<close>

fun asset_event :: "event \<Rightarrow> bool" where
  "asset_event (Upload fld buf) = True"
| "asset_event (Destroy pid) = True"
| "asset_event ev = False"

text \<open>
  The two image fields of a document are set or unset as a pair: both hold the empty string,
  or both hold a string that is not empty.
\<close>

fun paired_values :: "json option \<Rightarrow> json option \<Rightarrow> bool" where
  "paired_values (Some (JStr u)) (Some (JStr p)) = ((u = []) = (p = []))"
| "paired_values v w = False"

definition paired :: "image_spec \<Rightarrow> obj \<Rightarrow> bool" where
  "paired sp d = paired_values (d (url_field sp)) (d (id_field sp))"

definition collection_paired :: "state \<Rightarrow> kind \<Rightarrow> bool" where
  "collection_paired s k =
     (case image_of k of
        None \<Rightarrow> True
      | Some sp \<Rightarrow> list_all (\<lambda>(i, d). paired sp d) (docs s k))"

definition pairs_hold :: "state \<Rightarrow> bool" where
  "pairs_hold s =
     list_all (collection_paired s) [Category, Offer, Product, RestaurantAdmin, Restaurant]"

text \<open>
  What the image host promises of a successful upload: the result names the stored asset,
  so neither its URL nor its public id is the empty string.
\<close>

definition reply_ok :: "env \<Rightarrow> bool" where
  "reply_ok e =
     (case upload_reply e of
        Inl err \<Rightarrow> True
      | Inr r \<Rightarrow> secure_url r \<noteq> [] \<and> public_id r \<noteq> [])"

fun call_ok :: "call \<Rightarrow> bool" where
  "call_ok (k, oper, req, e) = reply_ok e"

text \<open>A stored value that is absent or of the type of its path, as Mongoose stores it.\<close>

fun typed :: "ftype \<Rightarrow> json option \<Rightarrow> bool" where
  "typed t None = True"
| "typed t (Some v) = of_type t v"

subsection \<open>Concrete requests, answers and states\<close>

fun reject_all :: "ftype \<Rightarrow> json \<Rightarrow> json option" where
  "reject_all t v = None"

fun no_twelve :: "string \<Rightarrow> oid option" where
  "no_twelve i = None"

definition tea_id :: oid where
  "tea_id = ''64b7f3a2c1d4e5f601234567''"

definition bistro_id :: oid where
  "bistro_id = ''64b7f3a2c1d4e5f60123abcd''"

definition calm :: env where
  "calm =
     \<lparr>find_err = None, write_err = None, destroy_err = None,
      upload_reply = Inr \<lparr>secure_url = ''https://cdn.test/xyz789.png'', public_id = ''xyz789''\<rparr>,
      new_id = ''64b7f3a2c1d4e5f6012300c1'', coerce = reject_all, twelve = no_twelve,
      rejection = ''Cast failed''\<rparr>"

definition outage :: env where
  "outage =
     \<lparr>find_err = None, write_err = None, destroy_err = Some ''destroy timed out'',
      upload_reply = Inl ''upload refused'',
      new_id = ''64b7f3a2c1d4e5f6012300c2'', coerce = reject_all, twelve = no_twelve,
      rejection = ''Cast failed''\<rparr>"

definition refused :: env where
  "refused =
     \<lparr>find_err = None, write_err = None, destroy_err = None,
      upload_reply = Inl ''upload refused'',
      new_id = ''64b7f3a2c1d4e5f6012300c4'', coerce = reject_all, twelve = no_twelve,
      rejection = ''Cast failed''\<rparr>"

definition same_id :: env where
  "same_id =
     \<lparr>find_err = None, write_err = None, destroy_err = None,
      upload_reply = Inr \<lparr>secure_url = ''https://cdn.test/abc123.png'', public_id = ''abc123''\<rparr>,
      new_id = ''64b7f3a2c1d4e5f6012300c3'', coerce = reject_all, twelve = no_twelve,
      rejection = ''Cast failed''\<rparr>"

definition tea :: obj where
  "tea = [''name'' \<mapsto> JStr ''Tea'', ''price'' \<mapsto> JNum 3,
          ''image'' \<mapsto> JStr ''https://cdn.test/old.png'', ''imagePublicId'' \<mapsto> JStr ''abc123'']"

definition bistro :: obj where
  "bistro = [''name'' \<mapsto> JStr ''Bistro'', ''logo'' \<mapsto> JStr [], ''logoPublicId'' \<mapsto> JStr []]"

fun shop_docs :: "kind \<Rightarrow> (oid \<times> obj) list" where
  "shop_docs Product = [(tea_id, tea)]"
| "shop_docs Restaurant = [(bistro_id, bistro)]"
| "shop_docs k = []"

definition shop :: state where
  "shop = \<lparr>docs = shop_docs, assets = {''abc123''}, trace = [], console = []\<rparr>"

definition drinks :: request where
  "drinks =
     \<lparr>params_id = [],
      req_body = [''name'' \<mapsto> JStr ''Drinks'', ''restaurantId'' \<mapsto> JStr ''r1'', ''order'' \<mapsto> JNum 1],
      req_file = None\<rparr>"

definition tinted :: request where
  "tinted =
     \<lparr>params_id = [],
      req_body = [''name'' \<mapsto> JStr ''Drinks'', ''color'' \<mapsto> JStr ''red''],
      req_file = None\<rparr>"

definition snapshot :: request where
  "snapshot =
     \<lparr>params_id = [],
      req_body = [''name'' \<mapsto> JStr ''Cake'', ''imagePublicId'' \<mapsto> JStr ''forged''],
      req_file = Some [1, 2, 3]\<rparr>"

definition photo :: request where
  "photo = \<lparr>params_id = tea_id, req_body = [''price'' \<mapsto> JNum 5], req_file = Some [7, 8]\<rparr>"

definition rename :: request where
  "rename =
     \<lparr>params_id = tea_id,
      req_body = [''name'' \<mapsto> JStr ''Green tea'', ''image'' \<mapsto> JStr ''forged''],
      req_file = None\<rparr>"

definition repaint :: request where
  "repaint =
     \<lparr>params_id = tea_id,
      req_body = [''name'' \<mapsto> JStr ''Green tea'', ''color'' \<mapsto> JStr ''red''],
      req_file = None\<rparr>"

definition closing :: request where
  "closing = \<lparr>params_id = bistro_id, req_body = Map.empty, req_file = None\<rparr>"



section \<open>Auxiliary facts\<close>

lemmas run_defs = Let_def try_catch_def await_def ret_def issue_def findById_def find_docs_def
  save_def findByIdAndUpdate_def findByIdAndDelete_def uploadToCloudinary_def
  deleteFromCloudinary_def

lemmas route_defs = handle_def post_image_def put_image_def delete_image_def post_plain_def
  put_plain_def delete_plain_def get_all_def get_one_def

lemma image_of_fields: "image_of k = Some sp \<Longrightarrow> url_field sp \<noteq> id_field sp"
  by (cases k) auto

lemma image_of_schema:
  assumes "image_of k = Some sp"
  shows "map_of (schema k) (url_field sp) = Some TString"
    and "map_of (schema k) (id_field sp) = Some TString"
  using assms by (cases k; auto)+

lemma image_of_no_array: "image_of k = Some sp \<Longrightarrow> map_of (schema k) f \<noteq> Some TStrings"
  by (cases k) (auto split: if_splits)

lemma folder_names_kind:
  "image_of k = Some sp \<Longrightarrow> image_of k' = Some sp' \<Longrightarrow> folder sp' = folder sp \<Longrightarrow> k' = k"
  by (cases k; cases k') auto


lemma deleted_names_kind: "deleted k' = deleted k \<Longrightarrow> k' = k"
  by (cases k; cases k') simp_all

lemma list_all_update:
  "list_all P al \<Longrightarrow> P (i, v) \<Longrightarrow> list_all P (AList.update i v al)"
  by (induction al) auto

lemma list_all_delete: "list_all P al \<Longrightarrow> list_all P (AList.delete i al)"
  by (simp add: AList.delete_eq list_all_iff)

lemma list_all_map_of: "list_all P al \<Longrightarrow> map_of al i = Some d \<Longrightarrow> P (i, d)"
  by (auto simp: list_all_iff dest: map_of_SomeD)

lemma paired_valuesD:
  "paired_values a b \<Longrightarrow> \<exists>u p. a = Some (JStr u) \<and> b = Some (JStr p) \<and> (u = []) = (p = [])"
  by (erule paired_values.elims) auto

subsection \<open>A string written to an image path is stored as it is\<close>

lemma cast_string: "cast e TString (JStr u) = Some (JStr u)"
  by (simp add: cast_def)

lemma cast_of_type: "of_type t v \<Longrightarrow> cast e t v = Some v"
  by (simp add: cast_def)

lemma cast_fields_string:
  "map_of (schema k) f = Some TString \<Longrightarrow> b f = Some (JStr u) \<Longrightarrow>
   cast_fields e k b f = Some (JStr u)"
  by (simp add: cast_fields_def cast_string)

lemma cast_fields_undeclared: "map_of (schema k) f = None \<Longrightarrow> cast_fields e k b f = None"
  by (simp add: cast_fields_def)

lemma cast_fields_absent: "b f = None \<Longrightarrow> cast_fields e k b f = None"
  by (simp add: cast_fields_def split: option.splits)

lemma cast_fields_declared:
  "map_of (schema k) f = Some t \<Longrightarrow> b f = Some v \<Longrightarrow> cast_fields e k b f = cast e t v"
  by (simp add: cast_fields_def)

lemma new_document_string:
  "map_of (schema k) f = Some TString \<Longrightarrow> b f = Some (JStr u) \<Longrightarrow>
   new_document e k b f = Some (JStr u)"
  by (simp add: new_document_def cast_fields_string)

lemma paired_new_document:
  assumes "image_of k = Some sp"
  shows "paired sp (new_document e k (b(url_field sp \<mapsto> JStr u, id_field sp \<mapsto> JStr p))) =
         ((u = []) = (p = []))"
  using image_of_fields [OF assms] image_of_schema [OF assms]
  by (simp add: paired_def new_document_string)

lemma paired_replace:
  assumes "image_of k = Some sp"
  shows "paired sp (d ++ cast_fields e k (b(url_field sp \<mapsto> JStr u, id_field sp \<mapsto> JStr p))) =
         ((u = []) = (p = []))"
  using image_of_fields [OF assms] image_of_schema [OF assms]
  by (simp add: paired_def map_add_def cast_fields_string)

lemma paired_carry:
  assumes "image_of k = Some sp" and "paired sp d"
  shows "paired sp
           (d ++ cast_fields e k (b(url_field sp := d (url_field sp), id_field sp := d (id_field sp))))"
proof -
  from assms(2) obtain u p where
    d: "d (url_field sp) = Some (JStr u)" "d (id_field sp) = Some (JStr p)" "(u = []) = (p = [])"
    unfolding paired_def by (blast dest: paired_valuesD)
  with image_of_fields [OF assms(1)] image_of_schema [OF assms(1)] show ?thesis
    by (simp add: paired_def map_add_def cast_fields_string)
qed

subsection \<open>Every route keeps the image fields of every collection paired\<close>

lemma step_post_image:
  assumes "image_of k = Some sp" "collection_paired s k'" "reply_ok e"
  shows "collection_paired (snd (post_image k sp req e s)) k'"
  using assms
  by (auto simp: post_image_def run_defs collection_paired_def reply_ok_def
                 paired_new_document split: option.splits sum.splits)

lemma step_put_image:
  assumes "image_of k = Some sp" "collection_paired s k'" "reply_ok e"
  shows "collection_paired (snd (put_image k sp req e s)) k'"
  using assms
  by (auto simp: put_image_def run_defs collection_paired_def reply_ok_def
                 paired_replace paired_carry
           split: option.splits sum.splits intro!: list_all_update dest: list_all_map_of)

lemma step_delete_image:
  assumes "collection_paired s k'"
  shows "collection_paired (snd (delete_image k sp req e s)) k'"
  using assms
  by (auto simp: delete_image_def run_defs collection_paired_def
           split: option.splits sum.splits intro!: list_all_delete)

lemma step_plain:
  assumes "image_of k = None" "collection_paired s k'"
  shows "collection_paired (snd (post_plain k req e s)) k'"
    and "collection_paired (snd (put_plain k req e s)) k'"
    and "collection_paired (snd (delete_plain k req e s)) k'"
  using assms
  by (auto simp: post_plain_def put_plain_def delete_plain_def run_defs collection_paired_def
           split: option.splits sum.splits)

lemma step_get:
  assumes "collection_paired s k'"
  shows "collection_paired (snd (get_all k req e s)) k'"
    and "collection_paired (snd (get_one k req e s)) k'"
  using assms
  by (auto simp: get_all_def get_one_def run_defs collection_paired_def
           split: option.splits sum.splits)

lemma step_handle:
  assumes "collection_paired s k'" "reply_ok e"
  shows "collection_paired (snd (handle k oper req e s)) k'"
  using assms
  by (cases oper; cases "image_of k")
     (simp_all add: handle_def step_post_image step_put_image step_delete_image step_plain step_get)

lemma pairs_step:
  "pairs_hold s \<Longrightarrow> reply_ok e \<Longrightarrow> pairs_hold (snd (handle k oper req e s))"
  by (simp add: pairs_hold_def step_handle)

subsection \<open>The concrete identifiers are ObjectIds\<close>

lemma cast_tea_id: "castObjectId e tea_id = Some tea_id"
  by (simp add: castObjectId_def tea_id_def hex_digit_def)

lemma cast_bistro_id: "castObjectId e bistro_id = Some bistro_id"
  by (simp add: castObjectId_def bistro_id_def hex_digit_def)




section \<open>The claims\<close>

text \<open>
  C1. The image URL field and the image asset-id field of every stored Category, Product and
  Restaurant are set or unset as a pair, and every operation keeps them so: if each stored
  document holds either two empty strings or two strings that are not empty, then after any
  sequence of requests (creates and updates among them, with any fields in the request body,
  the two image fields included) each stored document still does. The values the handler
  computes replace whatever the client sent under the two field names. The image host is
  taken to answer a successful upload with a URL and a public id that are not empty.
\<close>

theorem image_fields_paired:
  assumes "pairs_hold s" and "list_all call_ok cs"
  shows "pairs_hold (serve s cs)"
  using assms
proof (induction cs arbitrary: s)
  case Nil
  then show ?case by simp
next
  case (Cons c cs)
  obtain k oper req e where c: "c = (k, oper, req, e)"
    by (cases c) auto
  from Cons.prems c have "pairs_hold (snd (handle k oper req e s))"
    by (simp add: pairs_step)
  with Cons.IH Cons.prems c show ?case
    by simp
qed

theorem image_fields_paired_witness:
  "pairs_hold shop \<and>
   list_all call_ok [(Product, Create, snapshot, calm), (Category, Create, drinks, same_id),
                     (Product, UpdateById, rename, calm)] \<and>
   pairs_hold (serve shop [(Product, Create, snapshot, calm), (Category, Create, drinks, same_id),
                           (Product, UpdateById, rename, calm)])"
proof -
  have a: "pairs_hold shop"
    by (simp add: pairs_hold_def collection_paired_def shop_def paired_def tea_def bistro_def)
  have b: "list_all call_ok [(Product, Create, snapshot, calm), (Category, Create, drinks, same_id),
                             (Product, UpdateById, rename, calm)]"
    by (simp add: reply_ok_def calm_def same_id_def)
  from image_fields_paired [OF a b] a b show ?thesis
    by simp
qed

text \<open>
  C4, as amended. A create of a Category, Product or Restaurant without a file, when the
  body is accepted and the write to the Document Store succeeds, answers 201 with the
  created document and appends that document to the collection. Its image URL and image
  asset id are both the empty string (present, not null). Of the other fields of the
  request body, those the schema of the kind declares are stored after the cast to the
  declared type, a value already of that type unchanged, and those the schema does not
  declare are not stored. The only call issued is the save, and the Asset Store is left
  alone.
\<close>

theorem create_without_file:
  assumes "image_of k = Some sp" and "req_file req = None" and "write_err e = None"
    and "castable e k ((req_body req)(url_field sp \<mapsto> JStr [], id_field sp \<mapsto> JStr []))"
    and "new_id e \<notin> fst ` set (docs s k)"
    and "ordinary (req_body req)"
  shows "let out = handle k Create req e s;
             flds = (req_body req)(url_field sp \<mapsto> JStr [], id_field sp \<mapsto> JStr []);
             d = new_document e k flds
         in fst out = \<lparr>status = 201, json = Document (Some (new_id e, d))\<rparr> \<and>
            docs (snd out) = (docs s)(k := docs s k @ [(new_id e, d)]) \<and>
            d (url_field sp) = Some (JStr []) \<and>
            d (id_field sp) = Some (JStr []) \<and>
            (\<forall>f. map_of (schema k) f = None \<longrightarrow> d f = None) \<and>
            (\<forall>f t. map_of (schema k) f = Some t \<and> f \<noteq> url_field sp \<and> f \<noteq> id_field sp \<longrightarrow>
               d f = (case req_body req f of None \<Rightarrow> None | Some v \<Rightarrow> cast e t v)) \<and>
            (\<forall>f t v. map_of (schema k) f = Some t \<and> f \<noteq> url_field sp \<and> f \<noteq> id_field sp \<and>
               req_body req f = Some v \<and> of_type t v \<longrightarrow> d f = Some v) \<and>
            trace (snd out) = trace s @ [Save k (new_id e) flds] \<and>
            assets (snd out) = assets s"
proof -
  let ?flds = "(req_body req)(url_field sp \<mapsto> JStr [], id_field sp \<mapsto> JStr [])"
  let ?d = "new_document e k ?flds"
  note fields = image_of_fields [OF assms(1)] image_of_schema [OF assms(1)]
  have run: "handle k Create req e s =
      (\<lparr>status = 201, json = Document (Some (new_id e, ?d))\<rparr>,
       s\<lparr>trace := trace s @ [Save k (new_id e) ?flds],
         docs := (docs s)(k := docs s k @ [(new_id e, ?d)])\<rparr>)"
    using assms by (simp add: handle_def post_image_def run_defs)
  have img: "?d (url_field sp) = Some (JStr [])" "?d (id_field sp) = Some (JStr [])"
    using fields by (simp_all add: new_document_string)
  have undeclared: "\<forall>f. map_of (schema k) f = None \<longrightarrow> ?d f = None"
    by (simp add: new_document_def cast_fields_def)
  have declared: "\<forall>f t. map_of (schema k) f = Some t \<and> f \<noteq> url_field sp \<and> f \<noteq> id_field sp \<longrightarrow>
      ?d f = (case req_body req f of None \<Rightarrow> None | Some v \<Rightarrow> cast e t v)"
  proof (intro allI impI)
    fix f t
    assume h: "map_of (schema k) f = Some t \<and> f \<noteq> url_field sp \<and> f \<noteq> id_field sp"
    then have "(f, t) \<in> set (schema k)"
      by (auto dest: map_of_SomeD)
    with assms(4) have c: "castable_at e ?flds (f, t)"
      unfolding castable_def list_all_iff by blast
    from h have "t \<noteq> TStrings"
      using image_of_no_array [OF assms(1), of f] by auto
    with h c show "?d f = (case req_body req f of None \<Rightarrow> None | Some v \<Rightarrow> cast e t v)"
      by (auto simp: new_document_def cast_fields_def split: option.splits)
  qed
  have same: "\<forall>f t v. map_of (schema k) f = Some t \<and> f \<noteq> url_field sp \<and> f \<noteq> id_field sp \<and>
      req_body req f = Some v \<and> of_type t v \<longrightarrow> ?d f = Some v"
    using declared by (auto simp: cast_of_type)
  from run img undeclared declared same show ?thesis
    by (simp add: Let_def)
qed

theorem create_without_file_witness:
  "image_of Category = Some \<lparr>url_field = ''image'', id_field = ''imagePublicId'', folder = ''categories''\<rparr> \<and>
   req_file drinks = None \<and> write_err calm = None \<and>
   castable calm Category ((req_body drinks)(''image'' \<mapsto> JStr [], ''imagePublicId'' \<mapsto> JStr [])) \<and>
   new_id calm \<notin> fst ` set (docs start Category) \<and>
   ordinary (req_body drinks) \<and>
   status (fst (handle Category Create drinks calm start)) = 201 \<and>
   the (map_of (docs (snd (handle Category Create drinks calm start)) Category) (new_id calm)) ''image'' =
     Some (JStr []) \<and>
   the (map_of (docs (snd (handle Category Create drinks calm start)) Category) (new_id calm)) ''imagePublicId'' =
     Some (JStr []) \<and>
   the (map_of (docs (snd (handle Category Create drinks calm start)) Category) (new_id calm)) ''name'' =
     Some (JStr ''Drinks'') \<and>
   the (map_of (docs (snd (handle Category Create drinks calm start)) Category) (new_id calm)) ''order'' =
     Some (JNum 1)"
proof -
  have a: "image_of Category = Some \<lparr>url_field = ''image'', id_field = ''imagePublicId'', folder = ''categories''\<rparr>"
    by simp
  have b: "req_file drinks = None" and c: "write_err calm = None"
    by (simp_all add: drinks_def calm_def)
  have d: "castable calm Category ((req_body drinks)(''image'' \<mapsto> JStr [], ''imagePublicId'' \<mapsto> JStr []))"
    by (simp add: castable_def cast_def drinks_def)
  have f: "new_id calm \<notin> fst ` set (docs start Category)"
    by (simp add: start_def)
  have g: "ordinary (req_body drinks)"
    by (auto simp: ordinary_def drinks_def split: if_splits)
  have d': "castable calm Category
      ((req_body drinks)(url_field \<lparr>url_field = ''image'', id_field = ''imagePublicId'', folder = ''categories''\<rparr> \<mapsto> JStr [],
         id_field \<lparr>url_field = ''image'', id_field = ''imagePublicId'', folder = ''categories''\<rparr> \<mapsto> JStr []))"
    using d by simp
  from create_without_file [OF a b c d' f g] a b c d f g show ?thesis
    by (simp add: Let_def drinks_def start_def new_document_def cast_fields_def cast_def)
qed

text \<open>
  C4 as stated fails where it says that all other raw fields pass through unchanged. The
  body of the request carries a field \<open>color\<close>, which the schema of Category does not
  declare; there is no file and every call succeeds. The create answers 201 and the stored
  document has no field \<open>color\<close>.
\<close>

theorem create_without_file_counterexample:
  "req_file tinted = None \<and>
   req_body tinted ''color'' = Some (JStr ''red'') \<and>
   status (fst (handle Category Create tinted calm start)) = 201 \<and>
   the (map_of (docs (snd (handle Category Create tinted calm start)) Category) (new_id calm))
     ''color'' = None \<and>
   the (map_of (docs (snd (handle Category Create tinted calm start)) Category) (new_id calm))
     ''name'' = Some (JStr ''Drinks'')"
  by (simp add: handle_def post_image_def run_defs tinted_def calm_def start_def
        castable_def cast_def new_document_def cast_fields_def)


text \<open>
  C5. A create of a Category, Product or Restaurant with a file first uploads the bytes of
  the file to the folder \<^verbatim>\<open>menumaster/\<close> followed by the folder of the kind, which no other
  kind uses, and then saves. When the body is accepted and the save succeeds, the document
  stored has the secure URL of the upload under its image URL field and the public id of
  the upload under its image asset-id field, and the answer is 201 with that document.
\<close>

theorem create_with_file:
  assumes "image_of k = Some sp" and "req_file req = Some buf"
    and "upload_reply e = Inr r"
  shows "let out = handle k Create req e s;
             flds = (req_body req)(url_field sp \<mapsto> JStr (secure_url r),
                                   id_field sp \<mapsto> JStr (public_id r));
             d = new_document e k flds
         in trace (snd out) =
              trace s @ [Upload (''menumaster/'' @ folder sp) buf, Save k (new_id e) flds] \<and>
            (\<forall>k' sp'. image_of k' = Some sp' \<and> folder sp' = folder sp \<longrightarrow> k' = k) \<and>
            (write_err e = None \<and> castable e k flds \<and> new_id e \<notin> fst ` set (docs s k) \<and>
             ordinary (req_body req) \<longrightarrow>
               fst out = \<lparr>status = 201, json = Document (Some (new_id e, d))\<rparr> \<and>
               docs (snd out) = (docs s)(k := docs s k @ [(new_id e, d)]) \<and>
               d (url_field sp) = Some (JStr (secure_url r)) \<and>
               d (id_field sp) = Some (JStr (public_id r)))"
proof -
  let ?flds = "(req_body req)(url_field sp \<mapsto> JStr (secure_url r),
                              id_field sp \<mapsto> JStr (public_id r))"
  let ?d = "new_document e k ?flds"
  have names: "\<forall>k' sp'. image_of k' = Some sp' \<and> folder sp' = folder sp \<longrightarrow> k' = k"
    using folder_names_kind [OF assms(1)] by blast
  note fields = image_of_fields [OF assms(1)] image_of_schema [OF assms(1)]
  have calls: "trace (snd (handle k Create req e s)) =
      trace s @ [Upload (''menumaster/'' @ folder sp) buf, Save k (new_id e) ?flds]"
    using assms by (simp add: handle_def post_image_def run_defs split: option.splits)
  have stored: "handle k Create req e s =
      (\<lparr>status = 201, json = Document (Some (new_id e, ?d))\<rparr>,
       s\<lparr>trace := trace s @ [Upload (''menumaster/'' @ folder sp) buf, Save k (new_id e) ?flds],
         assets := insert (public_id r) (assets s),
         docs := (docs s)(k := docs s k @ [(new_id e, ?d)])\<rparr>)"
    if "write_err e = None" "castable e k ?flds" "new_id e \<notin> fst ` set (docs s k)"
    using that assms by (simp add: handle_def post_image_def run_defs)
  have img: "?d (url_field sp) = Some (JStr (secure_url r))"
    "?d (id_field sp) = Some (JStr (public_id r))"
    using fields by (simp_all add: new_document_string)
  show ?thesis
    unfolding Let_def
  proof (intro conjI impI)
    show "trace (snd (handle k Create req e s)) =
      trace s @ [Upload (''menumaster/'' @ folder sp) buf, Save k (new_id e) ?flds]"
      by (rule calls)
    show "\<forall>k' sp'. image_of k' = Some sp' \<and> folder sp' = folder sp \<longrightarrow> k' = k"
      by (rule names)
  next
    assume h: "write_err e = None \<and> castable e k ?flds \<and>
      new_id e \<notin> fst ` set (docs s k) \<and> ordinary (req_body req)"
    then have run: "handle k Create req e s =
      (\<lparr>status = 201, json = Document (Some (new_id e, ?d))\<rparr>,
       s\<lparr>trace := trace s @ [Upload (''menumaster/'' @ folder sp) buf, Save k (new_id e) ?flds],
         assets := insert (public_id r) (assets s),
         docs := (docs s)(k := docs s k @ [(new_id e, ?d)])\<rparr>)"
      using stored by blast
    show "fst (handle k Create req e s) = \<lparr>status = 201, json = Document (Some (new_id e, ?d))\<rparr>"
      by (simp add: run)
    show "docs (snd (handle k Create req e s)) = (docs s)(k := docs s k @ [(new_id e, ?d)])"
      by (simp add: run)
    show "?d (url_field sp) = Some (JStr (secure_url r))"
      by (rule img)
    show "?d (id_field sp) = Some (JStr (public_id r))"
      by (rule img)
  qed
qed

theorem create_with_file_witness:
  "image_of Product = Some \<lparr>url_field = ''image'', id_field = ''imagePublicId'', folder = ''products''\<rparr> \<and>
   req_file snapshot = Some [1, 2, 3] \<and>
   upload_reply calm = Inr \<lparr>secure_url = ''https://cdn.test/xyz789.png'', public_id = ''xyz789''\<rparr> \<and>
   write_err calm = None \<and>
   castable calm Product
     ((req_body snapshot)(''image'' \<mapsto> JStr ''https://cdn.test/xyz789.png'',
                          ''imagePublicId'' \<mapsto> JStr ''xyz789'')) \<and>
   new_id calm \<notin> fst ` set (docs start Product) \<and>
   ordinary (req_body snapshot) \<and>
   trace (snd (handle Product Create snapshot calm start)) ! 0 = Upload ''menumaster/products'' [1, 2, 3] \<and>
   status (fst (handle Product Create snapshot calm start)) = 201 \<and>
   the (map_of (docs (snd (handle Product Create snapshot calm start)) Product) (new_id calm)) ''image'' =
     Some (JStr ''https://cdn.test/xyz789.png'') \<and>
   the (map_of (docs (snd (handle Product Create snapshot calm start)) Product) (new_id calm)) ''imagePublicId'' =
     Some (JStr ''xyz789'')"
proof -
  have a: "image_of Product = Some \<lparr>url_field = ''image'', id_field = ''imagePublicId'', folder = ''products''\<rparr>"
    by simp
  have b: "req_file snapshot = Some [1, 2, 3]"
    by (simp add: snapshot_def)
  have c: "upload_reply calm = Inr \<lparr>secure_url = ''https://cdn.test/xyz789.png'', public_id = ''xyz789''\<rparr>"
    and d: "write_err calm = None"
    by (simp_all add: calm_def)
  have f: "castable calm Product
     ((req_body snapshot)(''image'' \<mapsto> JStr ''https://cdn.test/xyz789.png'',
                          ''imagePublicId'' \<mapsto> JStr ''xyz789''))"
    by (simp add: castable_def cast_def snapshot_def)
  have g: "new_id calm \<notin> fst ` set (docs start Product)"
    by (simp add: start_def)
  have h: "ordinary (req_body snapshot)"
    by (auto simp: ordinary_def snapshot_def split: if_splits)
  from create_with_file [OF a b c, of start] a b c d f g h show ?thesis
    by (simp add: Let_def start_def)
qed

text \<open>
  C6. A create of a Category, Product or Restaurant whose upload fails writes no document:
  the only call issued is the upload, the collections are as they were, and the answer is
  500 with the message of the upload error.
\<close>

theorem create_upload_failure:
  assumes "image_of k = Some sp" and "req_file req = Some buf" and "upload_reply e = Inl msg"
  shows "let out = handle k Create req e s
         in fst out = \<lparr>status = 500, json = Error msg\<rparr> \<and>
            docs (snd out) = docs s \<and>
            trace (snd out) = trace s @ [Upload (''menumaster/'' @ folder sp) buf]"
  using assms
  by (simp add: handle_def post_image_def run_defs)

theorem create_upload_failure_witness:
  "image_of Product = Some \<lparr>url_field = ''image'', id_field = ''imagePublicId'', folder = ''products''\<rparr> \<and>
   req_file snapshot = Some [1, 2, 3] \<and> upload_reply outage = Inl ''upload refused'' \<and>
   fst (handle Product Create snapshot outage shop) = \<lparr>status = 500, json = Error ''upload refused''\<rparr> \<and>
   docs (snd (handle Product Create snapshot outage shop)) = docs shop"
proof -
  have a: "image_of Product = Some \<lparr>url_field = ''image'', id_field = ''imagePublicId'', folder = ''products''\<rparr>"
    by simp
  have b: "req_file snapshot = Some [1, 2, 3]"
    by (simp add: snapshot_def)
  have c: "upload_reply outage = Inl ''upload refused''"
    by (simp add: outage_def)
  from create_upload_failure [OF a b c, of shop] a b c show ?thesis
    by (simp add: Let_def)
qed


text \<open>
  C3, as amended. An update of an existing Category, Product or Restaurant without a file,
  when the body is accepted and the Document Store calls succeed, stores over the fields of
  the existing document those fields of the request body that the schema of the kind
  declares, each cast to its declared type (a value already of that type unchanged); a field
  of the body that the schema does not declare is dropped. The image URL and the image asset
  id keep the values of the existing document whatever the body holds under those names. The
  update answers 200 with the updated document, touches no other document, and issues only
  the lookup and the update: no call goes to the Asset Store.
\<close>

theorem update_without_file:
  assumes "image_of k = Some sp" and "req_file req = None"
    and "find_err e = None" and "write_err e = None"
    and "castObjectId e (params_id req) = Some i"
    and "map_of (docs s k) i = Some d"
    and "typed TString (d (url_field sp))" and "typed TString (d (id_field sp))"
    and "castable e k
           ((req_body req)(url_field sp := d (url_field sp), id_field sp := d (id_field sp)))"
    and "ordinary (req_body req)"
  shows "let out = handle k UpdateById req e s;
             upd = (req_body req)(url_field sp := d (url_field sp), id_field sp := d (id_field sp));
             d' = d ++ cast_fields e k upd
         in fst out = \<lparr>status = 200, json = Document (Some (i, d'))\<rparr> \<and>
            map_of (docs (snd out) k) = (map_of (docs s k))(i \<mapsto> d') \<and>
            (\<forall>k'. k' \<noteq> k \<longrightarrow> docs (snd out) k' = docs s k') \<and>
            d' (url_field sp) = d (url_field sp) \<and>
            d' (id_field sp) = d (id_field sp) \<and>
            (\<forall>f. map_of (schema k) f = None \<longrightarrow> d' f = d f) \<and>
            (\<forall>f t. map_of (schema k) f = Some t \<and> f \<noteq> url_field sp \<and> f \<noteq> id_field sp \<longrightarrow>
               d' f = (case req_body req f of None \<Rightarrow> d f | Some v \<Rightarrow> cast e t v)) \<and>
            (\<forall>f t v. map_of (schema k) f = Some t \<and> f \<noteq> url_field sp \<and> f \<noteq> id_field sp \<and>
               req_body req f = Some v \<and> of_type t v \<longrightarrow> d' f = Some v) \<and>
            trace (snd out) =
              trace s @ [FindById k (params_id req), FindByIdAndUpdate k (params_id req) upd] \<and>
            list_all (\<lambda>ev. \<not> asset_event ev)
              [FindById k (params_id req), FindByIdAndUpdate k (params_id req) upd] \<and>
            assets (snd out) = assets s"
proof -
  let ?upd = "(req_body req)(url_field sp := d (url_field sp), id_field sp := d (id_field sp))"
  let ?d' = "d ++ cast_fields e k ?upd"
  note fields = image_of_fields [OF assms(1)] image_of_schema [OF assms(1)]
  have run: "handle k UpdateById req e s =
      (\<lparr>status = 200, json = Document (Some (i, ?d'))\<rparr>,
       s\<lparr>trace := trace s @ [FindById k (params_id req), FindByIdAndUpdate k (params_id req) ?upd],
         docs := (docs s)(k := AList.update i ?d' (docs s k))\<rparr>)"
    using assms(1-6,9) by (simp add: handle_def put_image_def run_defs)
  have url: "?d' (url_field sp) = d (url_field sp)"
    using fields assms(7)
    by (cases "d (url_field sp)") (simp_all add: map_add_def cast_fields_def cast_of_type)
  have idf: "?d' (id_field sp) = d (id_field sp)"
    using fields assms(8)
    by (cases "d (id_field sp)") (simp_all add: map_add_def cast_fields_def cast_of_type)
  have undeclared: "\<forall>f. map_of (schema k) f = None \<longrightarrow> ?d' f = d f"
    by (simp add: map_add_def cast_fields_def)
  have declared: "\<forall>f t. map_of (schema k) f = Some t \<and> f \<noteq> url_field sp \<and> f \<noteq> id_field sp \<longrightarrow>
      ?d' f = (case req_body req f of None \<Rightarrow> d f | Some v \<Rightarrow> cast e t v)"
  proof (intro allI impI)
    fix f t
    assume h: "map_of (schema k) f = Some t \<and> f \<noteq> url_field sp \<and> f \<noteq> id_field sp"
    then have "(f, t) \<in> set (schema k)"
      by (auto dest: map_of_SomeD)
    with assms(9) have "castable_at e ?upd (f, t)"
      unfolding castable_def list_all_iff by blast
    with h show "?d' f = (case req_body req f of None \<Rightarrow> d f | Some v \<Rightarrow> cast e t v)"
      by (auto simp: map_add_def cast_fields_def split: option.splits)
  qed
  have same: "\<forall>f t v. map_of (schema k) f = Some t \<and> f \<noteq> url_field sp \<and> f \<noteq> id_field sp \<and>
      req_body req f = Some v \<and> of_type t v \<longrightarrow> ?d' f = Some v"
    using declared by (auto simp: cast_of_type)
  have stored: "map_of (docs (snd (handle k UpdateById req e s)) k) = (map_of (docs s k))(i \<mapsto> ?d')"
    by (simp add: run update_conv')
  have others: "\<forall>k'. k' \<noteq> k \<longrightarrow> docs (snd (handle k UpdateById req e s)) k' = docs s k'"
    by (simp add: run)
  have rest: "fst (handle k UpdateById req e s) = \<lparr>status = 200, json = Document (Some (i, ?d'))\<rparr>"
    "trace (snd (handle k UpdateById req e s)) =
       trace s @ [FindById k (params_id req), FindByIdAndUpdate k (params_id req) ?upd]"
    "assets (snd (handle k UpdateById req e s)) = assets s"
    by (simp_all add: run)
  from url idf undeclared declared same stored others rest show ?thesis
    by (simp add: Let_def)
qed

theorem update_without_file_witness:
  "image_of Product = Some \<lparr>url_field = ''image'', id_field = ''imagePublicId'', folder = ''products''\<rparr> \<and>
   req_file rename = None \<and> find_err calm = None \<and> write_err calm = None \<and>
   castObjectId calm (params_id rename) = Some tea_id \<and>
   map_of (docs shop Product) tea_id = Some tea \<and>
   typed TString (tea ''image'') \<and> typed TString (tea ''imagePublicId'') \<and>
   castable calm Product
     ((req_body rename)(''image'' := tea ''image'', ''imagePublicId'' := tea ''imagePublicId'')) \<and>
   ordinary (req_body rename) \<and>
   status (fst (handle Product UpdateById rename calm shop)) = 200 \<and>
   the (map_of (docs (snd (handle Product UpdateById rename calm shop)) Product) tea_id) ''image'' =
     Some (JStr ''https://cdn.test/old.png'') \<and>
   the (map_of (docs (snd (handle Product UpdateById rename calm shop)) Product) tea_id) ''imagePublicId'' =
     Some (JStr ''abc123'') \<and>
   the (map_of (docs (snd (handle Product UpdateById rename calm shop)) Product) tea_id) ''name'' =
     Some (JStr ''Green tea'') \<and>
   the (map_of (docs (snd (handle Product UpdateById rename calm shop)) Product) tea_id) ''price'' =
     Some (JNum 3)"
proof -
  let ?sp = "\<lparr>url_field = ''image'', id_field = ''imagePublicId'', folder = ''products''\<rparr>"
  have a: "image_of Product = Some ?sp"
    by simp
  have b: "req_file rename = None"
    by (simp add: rename_def)
  have c: "find_err calm = None" and d: "write_err calm = None"
    by (simp_all add: calm_def)
  have f: "castObjectId calm (params_id rename) = Some tea_id"
    by (simp add: rename_def cast_tea_id)
  have g: "map_of (docs shop Product) tea_id = Some tea"
    by (simp add: shop_def)
  have h: "typed TString (tea ''image'')" "typed TString (tea ''imagePublicId'')"
    by (simp_all add: tea_def)
  have j: "castable calm Product
     ((req_body rename)(''image'' := tea ''image'', ''imagePublicId'' := tea ''imagePublicId''))"
    by (simp add: castable_def cast_def rename_def tea_def)
  have l: "ordinary (req_body rename)"
    by (auto simp: ordinary_def rename_def split: if_splits)
  have h': "typed TString (tea (url_field ?sp))" "typed TString (tea (id_field ?sp))"
    using h by simp_all
  have j': "castable calm Product
     ((req_body rename)(url_field ?sp := tea (url_field ?sp), id_field ?sp := tea (id_field ?sp)))"
    using j by simp
  from update_without_file [OF a b c d f g h' j' l] a b c d f g h j l show ?thesis
    by (simp add: Let_def rename_def tea_def map_add_def cast_fields_def cast_def)
qed

text \<open>
  C3 as stated fails where it says that the fields persisted are the raw request fields
  merged over the existing document. The body of the update carries a field \<open>color\<close>,
  which the schema of Product does not declare; there is no file and every call succeeds.
  The raw fields merged over the stored product would hold \<open>color\<close>; the update answers
  200 and the stored product has no such field, while the declared field \<open>name\<close> is
  updated.
\<close>

theorem update_without_file_counterexample:
  "req_file repaint = None \<and>
   map_of (docs shop Product) tea_id = Some tea \<and>
   (tea ++ req_body repaint) ''color'' = Some (JStr ''red'') \<and>
   status (fst (handle Product UpdateById repaint calm shop)) = 200 \<and>
   the (map_of (docs (snd (handle Product UpdateById repaint calm shop)) Product) tea_id)
     ''color'' = None \<and>
   the (map_of (docs (snd (handle Product UpdateById repaint calm shop)) Product) tea_id)
     ''name'' = Some (JStr ''Green tea'')"
  by (simp add: handle_def put_image_def run_defs repaint_def shop_def tea_def calm_def
        cast_tea_id castable_def cast_def cast_fields_def map_add_def)


text \<open>
  C2, as amended. An update of an existing Category, Product or Restaurant with a file, when
  the lookup and the upload succeed, issues its calls in this order: the lookup; a destroy
  of the old asset, if and only if the asset id of the existing document is truthy (a string
  that is not empty), so an empty old id means no destroy; the upload of the new bytes; the
  update. When the body is accepted and the update succeeds, the stored image URL and asset
  id are the ones the upload returned, and the answer is 200 with the updated document. The
  stored asset id is whatever the image host returned: it differs from the old one exactly
  when the host returned an id other than the old one.
\<close>

theorem update_with_file:
  assumes "image_of k = Some sp" and "req_file req = Some buf"
    and "find_err e = None"
    and "castObjectId e (params_id req) = Some i"
    and "map_of (docs s k) i = Some d"
    and "upload_reply e = Inr r"
  shows "let out = handle k UpdateById req e s;
             upd = (req_body req)(url_field sp \<mapsto> JStr (secure_url r),
                                  id_field sp \<mapsto> JStr (public_id r));
             d' = d ++ cast_fields e k upd
         in trace (snd out) =
              trace s @ [FindById k (params_id req)] @
              (if truthy (d (id_field sp)) then [Destroy (d (id_field sp))] else []) @
              [Upload (''menumaster/'' @ folder sp) buf,
               FindByIdAndUpdate k (params_id req) upd] \<and>
            (write_err e = None \<and> castable e k upd \<and> ordinary (req_body req) \<longrightarrow>
               fst out = \<lparr>status = 200, json = Document (Some (i, d'))\<rparr> \<and>
               map_of (docs (snd out) k) = (map_of (docs s k))(i \<mapsto> d') \<and>
               d' (url_field sp) = Some (JStr (secure_url r)) \<and>
               d' (id_field sp) = Some (JStr (public_id r)) \<and>
               (d' (id_field sp) \<noteq> d (id_field sp)) =
                 (d (id_field sp) \<noteq> Some (JStr (public_id r))))"
proof -
  let ?upd = "(req_body req)(url_field sp \<mapsto> JStr (secure_url r),
                             id_field sp \<mapsto> JStr (public_id r))"
  let ?d' = "d ++ cast_fields e k ?upd"
  let ?out = "handle k UpdateById req e s"
  note fields = image_of_fields [OF assms(1)] image_of_schema [OF assms(1)]
  have calls: "trace (snd ?out) =
      trace s @ [FindById k (params_id req)] @
      (if truthy (d (id_field sp)) then [Destroy (d (id_field sp))] else []) @
      [Upload (''menumaster/'' @ folder sp) buf, FindByIdAndUpdate k (params_id req) ?upd]"
    using assms by (simp add: handle_def put_image_def run_defs split: option.splits)
  have img: "?d' (url_field sp) = Some (JStr (secure_url r))"
    "?d' (id_field sp) = Some (JStr (public_id r))"
    using fields by (simp_all add: map_add_def cast_fields_string)
  have answer: "fst ?out = \<lparr>status = 200, json = Document (Some (i, ?d'))\<rparr>"
    and stored: "map_of (docs (snd ?out) k) = (map_of (docs s k))(i \<mapsto> ?d')"
    if "write_err e = None" "castable e k ?upd"
    using that assms
    by (simp_all add: handle_def put_image_def run_defs update_conv' split: option.splits)
  show ?thesis
    unfolding Let_def
  proof (intro conjI impI)
    show "trace (snd ?out) =
      trace s @ [FindById k (params_id req)] @
      (if truthy (d (id_field sp)) then [Destroy (d (id_field sp))] else []) @
      [Upload (''menumaster/'' @ folder sp) buf, FindByIdAndUpdate k (params_id req) ?upd]"
      by (rule calls)
  next
    assume h: "write_err e = None \<and> castable e k ?upd \<and> ordinary (req_body req)"
    show "fst ?out = \<lparr>status = 200, json = Document (Some (i, ?d'))\<rparr>"
      using h answer by blast
    show "map_of (docs (snd ?out) k) = (map_of (docs s k))(i \<mapsto> ?d')"
      using h stored by blast
    show "?d' (url_field sp) = Some (JStr (secure_url r))"
      by (rule img)
    show "?d' (id_field sp) = Some (JStr (public_id r))"
      by (rule img)
    show "(?d' (id_field sp) \<noteq> d (id_field sp)) = (d (id_field sp) \<noteq> Some (JStr (public_id r)))"
      using img(2) by auto
  qed
qed

theorem update_with_file_witness:
  "image_of Product = Some \<lparr>url_field = ''image'', id_field = ''imagePublicId'', folder = ''products''\<rparr> \<and>
   req_file photo = Some [7, 8] \<and> find_err calm = None \<and> write_err calm = None \<and>
   castObjectId calm (params_id photo) = Some tea_id \<and>
   map_of (docs shop Product) tea_id = Some tea \<and>
   upload_reply calm = Inr \<lparr>secure_url = ''https://cdn.test/xyz789.png'', public_id = ''xyz789''\<rparr> \<and>
   castable calm Product
     ((req_body photo)(''image'' \<mapsto> JStr ''https://cdn.test/xyz789.png'',
                       ''imagePublicId'' \<mapsto> JStr ''xyz789'')) \<and>
   ordinary (req_body photo) \<and>
   trace (snd (handle Product UpdateById photo calm shop)) =
     [FindById Product tea_id, Destroy (Some (JStr ''abc123'')),
      Upload ''menumaster/products'' [7, 8],
      FindByIdAndUpdate Product tea_id
        [''price'' \<mapsto> JNum 5, ''image'' \<mapsto> JStr ''https://cdn.test/xyz789.png'',
         ''imagePublicId'' \<mapsto> JStr ''xyz789'']] \<and>
   status (fst (handle Product UpdateById photo calm shop)) = 200 \<and>
   the (map_of (docs (snd (handle Product UpdateById photo calm shop)) Product) tea_id) ''imagePublicId'' =
     Some (JStr ''xyz789'')"
proof -
  have a: "image_of Product = Some \<lparr>url_field = ''image'', id_field = ''imagePublicId'', folder = ''products''\<rparr>"
    by simp
  have b: "req_file photo = Some [7, 8]"
    by (simp add: photo_def)
  have c: "find_err calm = None" and d: "write_err calm = None"
    and g: "upload_reply calm = Inr \<lparr>secure_url = ''https://cdn.test/xyz789.png'', public_id = ''xyz789''\<rparr>"
    by (simp_all add: calm_def)
  have f: "castObjectId calm (params_id photo) = Some tea_id"
    by (simp add: photo_def cast_tea_id)
  have h: "map_of (docs shop Product) tea_id = Some tea"
    by (simp add: shop_def)
  have j: "castable calm Product
     ((req_body photo)(''image'' \<mapsto> JStr ''https://cdn.test/xyz789.png'',
                       ''imagePublicId'' \<mapsto> JStr ''xyz789''))"
    by (simp add: castable_def cast_def photo_def)
  have l: "ordinary (req_body photo)"
    by (auto simp: ordinary_def photo_def split: if_splits)
  from update_with_file [OF a b c f h g] a b c d f h g j l show ?thesis
    by (simp add: Let_def photo_def tea_def shop_def)
qed

text \<open>
  C2 as stated fails where it says that the stored new asset id differs from the old one.
  The stored product holds the asset id \<open>abc123\<close>; the update carries a file, every call
  succeeds and the image host names the new upload \<open>abc123\<close> again. The update answers 200
  and the stored asset id is \<open>abc123\<close>, the old one.
\<close>

theorem update_with_file_counterexample:
  "req_file photo = Some [7, 8] \<and>
   map_of (docs shop Product) tea_id = Some tea \<and>
   tea ''imagePublicId'' = Some (JStr ''abc123'') \<and>
   status (fst (handle Product UpdateById photo same_id shop)) = 200 \<and>
   the (map_of (docs (snd (handle Product UpdateById photo same_id shop)) Product) tea_id)
     ''imagePublicId'' = tea ''imagePublicId''"
  by (simp add: handle_def put_image_def run_defs photo_def shop_def tea_def same_id_def
        cast_tea_id castable_def cast_def cast_fields_def map_add_def)

text \<open>
  C7. A delete of an existing Category, Product or Restaurant, when the Document Store calls
  succeed, issues the lookup, then a destroy of the asset if and only if the asset id of the
  document is truthy (a string that is not empty), then the delete of the document. With an
  empty asset id no call goes to the Asset Store. Whatever the destroy answers, the
  document is gone afterwards and the answer is 200 with the message of the kind, which no
  other kind uses.
\<close>

theorem delete_releases_image:
  assumes "image_of k = Some sp" and "find_err e = None" and "write_err e = None"
    and "castObjectId e (params_id req) = Some i"
    and "map_of (docs s k) i = Some d"
  shows "let out = handle k DeleteById req e s
         in trace (snd out) =
              trace s @ [FindById k (params_id req)] @
              (if truthy (d (id_field sp)) then [Destroy (d (id_field sp))] else []) @
              [FindByIdAndDelete k (params_id req)] \<and>
            map_of (docs (snd out) k) = (map_of (docs s k))(i := None) \<and>
            fst out = \<lparr>status = 200, json = Message (deleted k)\<rparr> \<and>
            (\<forall>k'. deleted k' = deleted k \<longrightarrow> k' = k)"
proof -
  have names: "\<forall>k'. deleted k' = deleted k \<longrightarrow> k' = k"
    using deleted_names_kind by blast
  from assms names show ?thesis
    by (simp add: handle_def delete_image_def run_defs delete_conv' split: option.splits)
qed

theorem delete_releases_image_witness:
  "image_of Restaurant = Some \<lparr>url_field = ''logo'', id_field = ''logoPublicId'', folder = ''restaurants''\<rparr> \<and>
   find_err outage = None \<and> write_err outage = None \<and>
   castObjectId outage (params_id closing) = Some bistro_id \<and>
   map_of (docs shop Restaurant) bistro_id = Some bistro \<and>
   trace (snd (handle Restaurant DeleteById closing outage shop)) =
     [FindById Restaurant bistro_id, FindByIdAndDelete Restaurant bistro_id] \<and>
   fst (handle Restaurant DeleteById closing outage shop) =
     \<lparr>status = 200, json = Message ''Restaurant deleted''\<rparr> \<and>
   image_of Product = Some \<lparr>url_field = ''image'', id_field = ''imagePublicId'', folder = ''products''\<rparr> \<and>
   castObjectId outage (params_id photo) = Some tea_id \<and>
   map_of (docs shop Product) tea_id = Some tea \<and>
   trace (snd (handle Product DeleteById photo outage shop)) =
     [FindById Product tea_id, Destroy (Some (JStr ''abc123'')), FindByIdAndDelete Product tea_id] \<and>
   map_of (docs (snd (handle Product DeleteById photo outage shop)) Product) tea_id = None"
proof -
  have a: "image_of Restaurant = Some \<lparr>url_field = ''logo'', id_field = ''logoPublicId'', folder = ''restaurants''\<rparr>"
    and a': "image_of Product = Some \<lparr>url_field = ''image'', id_field = ''imagePublicId'', folder = ''products''\<rparr>"
    by simp_all
  have b: "find_err outage = None" and c: "write_err outage = None"
    by (simp_all add: outage_def)
  have f: "castObjectId outage (params_id closing) = Some bistro_id"
    and f': "castObjectId outage (params_id photo) = Some tea_id"
    by (simp_all add: closing_def photo_def cast_bistro_id cast_tea_id)
  have g: "map_of (docs shop Restaurant) bistro_id = Some bistro"
    and g': "map_of (docs shop Product) tea_id = Some tea"
    by (simp_all add: shop_def)
  from delete_releases_image [OF a b c f g] delete_releases_image [OF a' b c f' g']
    a a' b c f f' g g'
  show ?thesis
    by (simp add: Let_def closing_def photo_def bistro_def tea_def shop_def)
qed

text \<open>
  C10. An update of an existing Category, Product or Restaurant with a file whose upload
  fails answers 500 with the message of the upload error and never reaches the update of the
  document: the collections are exactly as before. The destroy of the old asset, when the
  old asset id is truthy, has been issued before the upload all the same, so when that
  destroy succeeded the stored document still names an asset that is no longer alive.
\<close>

theorem update_upload_failure:
  assumes "image_of k = Some sp" and "req_file req = Some buf"
    and "find_err e = None"
    and "castObjectId e (params_id req) = Some i"
    and "map_of (docs s k) i = Some d"
    and "upload_reply e = Inl msg"
  shows "let out = handle k UpdateById req e s
         in fst out = \<lparr>status = 500, json = Error msg\<rparr> \<and>
            docs (snd out) = docs s \<and>
            trace (snd out) =
              trace s @ [FindById k (params_id req)] @
              (if truthy (d (id_field sp)) then [Destroy (d (id_field sp))] else []) @
              [Upload (''menumaster/'' @ folder sp) buf] \<and>
            (\<forall>p. destroy_err e = None \<and> d (id_field sp) = Some (JStr p) \<and> p \<noteq> [] \<longrightarrow>
                 p \<notin> assets (snd out) \<and>
                 map_of (docs (snd out) k) i = Some d)"
  using assms
  by (auto simp add: handle_def put_image_def run_defs split: option.splits)

theorem update_upload_failure_witness:
  "image_of Product = Some \<lparr>url_field = ''image'', id_field = ''imagePublicId'', folder = ''products''\<rparr> \<and>
   req_file photo = Some [7, 8] \<and> find_err refused = None \<and>
   castObjectId refused (params_id photo) = Some tea_id \<and>
   map_of (docs shop Product) tea_id = Some tea \<and>
   upload_reply refused = Inl ''upload refused'' \<and>
   fst (handle Product UpdateById photo refused shop) =
     \<lparr>status = 500, json = Error ''upload refused''\<rparr> \<and>
   docs (snd (handle Product UpdateById photo refused shop)) = docs shop \<and>
   trace (snd (handle Product UpdateById photo refused shop)) =
     [FindById Product tea_id, Destroy (Some (JStr ''abc123'')),
      Upload ''menumaster/products'' [7, 8]] \<and>
   ''abc123'' \<in> assets shop \<and>
   ''abc123'' \<notin> assets (snd (handle Product UpdateById photo refused shop)) \<and>
   tea ''imagePublicId'' = Some (JStr ''abc123'')"
proof -
  have a: "image_of Product = Some \<lparr>url_field = ''image'', id_field = ''imagePublicId'', folder = ''products''\<rparr>"
    by simp
  have b: "req_file photo = Some [7, 8]"
    by (simp add: photo_def)
  have c: "find_err refused = None" and g: "upload_reply refused = Inl ''upload refused''"
    and h: "destroy_err refused = None"
    by (simp_all add: refused_def)
  have f: "castObjectId refused (params_id photo) = Some tea_id"
    by (simp add: photo_def cast_tea_id)
  have f': "map_of (docs shop Product) tea_id = Some tea"
    by (simp add: shop_def)
  have i: "tea ''imagePublicId'' = Some (JStr ''abc123'')"
    by (simp add: tea_def)
  have j: "''abc123'' \<in> assets shop"
    by (simp add: shop_def)
  from update_upload_failure [OF a b c f f' g] a b c f f' g h i j show ?thesis
    by (simp add: Let_def photo_def shop_def)
qed


text \<open>
  C8. A failure of an Asset Store deletion never reaches the caller. For every kind, every
  operation, every request and every state, the run in which the destroy fails with any
  error and the run in which it succeeds give the same answer (status and body), leave the
  same collections and issue the same calls to both stores; the failing run differs only by
  the one line it may write to the console.
\<close>

theorem destroy_failure_swallowed:
  "let ok = handle k oper req (e\<lparr>destroy_err := None\<rparr>) s;
       ko = handle k oper req (e\<lparr>destroy_err := Some err\<rparr>) s
   in fst ko = fst ok \<and>
      docs (snd ko) = docs (snd ok) \<and>
      trace (snd ko) = trace (snd ok) \<and>
      console (snd ok) = console s \<and>
      (console (snd ko) = console s \<or>
       console (snd ko) = console s @ [''Error deleting image from Cloudinary: '' @ err])"
proof -
  have same_cast [simp]: "castObjectId (e\<lparr>destroy_err := x\<rparr>) = castObjectId e" for x
    by (rule ext) (simp add: castObjectId_def)
  have same_value [simp]: "cast (e\<lparr>destroy_err := x\<rparr>) = cast e" for x
    by (intro ext) (simp add: cast_def)
  have same_at: "castable_at (e\<lparr>destroy_err := x\<rparr>) b = castable_at e b" for x b
  proof (rule ext)
    fix p
    show "castable_at (e\<lparr>destroy_err := x\<rparr>) b p = castable_at e b p"
      by (cases p) (simp split: option.splits)
  qed
  have same_castable [simp]: "castable (e\<lparr>destroy_err := x\<rparr>) = castable e" for x
    by (intro ext) (simp add: castable_def same_at)
  have same_fields [simp]: "cast_fields (e\<lparr>destroy_err := x\<rparr>) = cast_fields e" for x
    by (intro ext) (simp add: cast_fields_def split: option.splits)
  have same_new [simp]: "new_document (e\<lparr>destroy_err := x\<rparr>) = new_document e" for x
    by (intro ext) (simp add: new_document_def split: option.splits)
  show ?thesis
  proof (cases "image_of k")
    case None
    then show ?thesis
      by (cases oper) (simp_all add: route_defs run_defs split: option.splits)
  next
    case (Some sp)
    then show ?thesis
      by (cases oper) (simp_all add: route_defs run_defs split: option.splits sum.splits)
  qed
qed

theorem destroy_failure_swallowed_witness:
  "fst (handle Product UpdateById photo (calm\<lparr>destroy_err := Some ''destroy timed out''\<rparr>) shop) =
   fst (handle Product UpdateById photo (calm\<lparr>destroy_err := None\<rparr>) shop) \<and>
   status (fst (handle Product UpdateById photo (calm\<lparr>destroy_err := Some ''destroy timed out''\<rparr>) shop)) = 200 \<and>
   console (snd (handle Product UpdateById photo (calm\<lparr>destroy_err := Some ''destroy timed out''\<rparr>) shop)) =
     [''Error deleting image from Cloudinary: destroy timed out'']"
proof -
  have "status (fst (handle Product UpdateById photo (calm\<lparr>destroy_err := Some ''destroy timed out''\<rparr>) shop)) = 200 \<and>
        console (snd (handle Product UpdateById photo (calm\<lparr>destroy_err := Some ''destroy timed out''\<rparr>) shop)) =
          [''Error deleting image from Cloudinary: destroy timed out'']"
    by (simp add: route_defs run_defs calm_def photo_def shop_def tea_def cast_tea_id
          castable_def cast_def)
  with destroy_failure_swallowed [of Product UpdateById photo calm shop "''destroy timed out''"]
  show ?thesis
    by (simp add: Let_def)
qed





end
